theory Spec2Isabelle
  imports Complex_Main
begin

section \<open>GitHub Copilot integration: device flow endpoints and token cache\<close>

text \<open>
  The development embeds two source files.

  \<^item> \<^verbatim>\<open>packages/components/nodes/chatmodels/ChatGitHubCopilot/ChatGitHubCopilot.ts\<close>:
    \<^verbatim>\<open>normalizeExpiresAt\<close>, the two module-level caches with their lookups
    \<^verbatim>\<open>getCachedCopilotToken\<close> and \<^verbatim>\<open>getCachedCopilotModels\<close>,
    \<^verbatim>\<open>fetchCopilotToken\<close> and \<^verbatim>\<open>getCopilotToken\<close>.
  \<^item> \<^verbatim>\<open>packages/server/src/routes/github-copilot/index.ts\<close>:
    \<^verbatim>\<open>resolveDeviceFlowConfig\<close> and the two route handlers.

  Conventions. A JavaScript number is an IEEE 754 binary64 value; a finite one is
  represented by the rational it denotes. Comparison and \<^verbatim>\<open>Math.floor\<close> are exact on
  such values; division and addition round the exact result to the nearest binary64
  value, ties to even, as the source's \<^verbatim>\<open>/ 1000\<close> and \<^verbatim>\<open>+ 300\<close> do. NaN and the
  infinities are outside the model. \<^verbatim>\<open>Date.now()\<close> is an integer number of
  milliseconds, passed in as \<open>nowMs\<close>; one call of a synchronous function reads one
  instant. Module-level \<^verbatim>\<open>Map\<close>s are maps passed in and returned. A thrown exception
  is a value \<open>Inl\<close> of a sum type.
\<close>

subsection \<open>Constants of ChatGitHubCopilot.ts\<close>

definition COPILOT_TOKEN_URL :: string where
  "COPILOT_TOKEN_URL = ''https://api.github.com/copilot_internal/v2/token''"

definition TOKEN_REFRESH_BUFFER_SECONDS :: rat where
  "TOKEN_REFRESH_BUFFER_SECONDS = 300"

definition COPILOT_HEADERS :: "(string \<times> string) list" where
  "COPILOT_HEADERS =
     [(''Editor-Version'', ''vscode/1.96.2''),
      (''Editor-Plugin-Version'', ''copilot-chat/0.23.1''),
      (''User-Agent'', ''GithubCopilot/1.255.0''),
      (''vscode-editorid'', ''vscode-chat''),
      (''vscode-machineid'', ''default'')]"

subsection \<open>JavaScript numbers\<close>

text \<open>
  \<open>fl64\<close> rounds a rational to the nearest binary64 value, ties to even. The binade
  of a positive rational \<open>a\<close> is the exponent \<open>e\<close> with \<open>2^e \<le> a < 2^(e+1)\<close>, found
  by bisection over the exponent range of binary64 and held at \<open>-1022\<close> below the
  normal range, where the spacing of the values no longer shrinks. A value of binade
  \<open>e\<close> is a multiple of \<open>2^(e-52)\<close>, so rounding is rounding the quotient by that
  spacing to an integer. Results of magnitude \<open>2^1024\<close> and above (overflow to
  infinity) are outside the model: the source divides by 1000 and adds 300 to a clock
  reading, which never get there.
\<close>

function binary_exponent :: "int \<Rightarrow> int \<Rightarrow> rat \<Rightarrow> int" where
  "binary_exponent lo hi a =
     (if hi - lo \<le> 1 then lo
      else let mid = (lo + hi) div 2
           in if 2 powi mid \<le> a then binary_exponent mid hi a
              else binary_exponent lo mid a)"
  by pat_completeness auto
termination
  by (relation "measure (\<lambda>(lo, hi, a). nat (hi - lo))") auto

declare binary_exponent.simps [simp del]

definition binade :: "rat \<Rightarrow> int" where
  "binade a = (if a < 2 powi (- 1022) then - 1022 else binary_exponent (- 1022) 1024 a)"

definition round_half_even :: "rat \<Rightarrow> int" where
  "round_half_even y =
     (let f = \<lfloor>y\<rfloor>; r = y - of_int f
      in if r < 1 / 2 then f
         else if 1 / 2 < r then f + 1
         else if even f then f else f + 1)"

definition fl64 :: "rat \<Rightarrow> rat" where
  "fl64 x =
     (if x = 0 then 0
      else let q = 2 powi (binade \<bar>x\<bar> - 52)
           in q * of_int (round_half_even (x / q)))"

text \<open>
  The source's \<^verbatim>\<open>x / y\<close> and \<^verbatim>\<open>x + y\<close> on numbers. The only divisor in the source
  is 1000.
\<close>

definition js_div :: "rat \<Rightarrow> rat \<Rightarrow> rat" where
  "js_div x y = fl64 (x / y)"

definition js_add :: "rat \<Rightarrow> rat \<Rightarrow> rat" where
  "js_add x y = fl64 (x + y)"

subsection \<open>normalizeExpiresAt\<close>

text \<open>
  \<^verbatim>\<open>if (expiresAt > 1_000_000_000_000) return Math.floor(expiresAt / 1000); return expiresAt\<close>
\<close>

definition normalizeExpiresAt :: "rat \<Rightarrow> rat" where
  "normalizeExpiresAt expiresAt =
     (if expiresAt > 1000000000000 then of_int \<lfloor>js_div expiresAt 1000\<rfloor> else expiresAt)"

subsection \<open>The token cache and the credential snapshot\<close>

text \<open>
  \<^verbatim>\<open>const copilotTokenCache = new Map<string, { token: string; expiresAt: number }>()\<close>.
  The credential snapshot is an \<^verbatim>\<open>ICommonObject\<close>; the lookup reads two of its
  properties, at the types the source casts them to
  (\<^verbatim>\<open>as string | undefined\<close>, \<^verbatim>\<open>as number | undefined\<close>).
\<close>

record cached_token =
  token :: string
  expiresAt :: rat

type_synonym token_cache = "string \<rightharpoonup> cached_token"

record credential_data =
  copilotToken :: "string option"
  copilotTokenExpiresAt :: "rat option"

text \<open>Truthiness of a \<^verbatim>\<open>string | undefined\<close> and of a \<^verbatim>\<open>number | undefined\<close>.\<close>

definition truthy_string :: "string option \<Rightarrow> bool" where
  "truthy_string s = (case s of None \<Rightarrow> False | Some t \<Rightarrow> t \<noteq> [])"

definition truthy_number :: "rat option \<Rightarrow> bool" where
  "truthy_number n = (case n of None \<Rightarrow> False | Some x \<Rightarrow> x \<noteq> 0)"

subsection \<open>getCachedCopilotToken\<close>

text \<open>
  The lookup returns the token (or \<open>None\<close> for \<^verbatim>\<open>undefined\<close>) and the cache as it
  leaves it. The only write is the \<^verbatim>\<open>copilotTokenCache.set\<close> that seeds the cache from
  the credential snapshot; the function has no \<^verbatim>\<open>delete\<close>.
\<close>

definition getCachedCopilotToken ::
  "int \<Rightarrow> string \<Rightarrow> credential_data \<Rightarrow> token_cache \<Rightarrow> string option \<times> token_cache" where
  "getCachedCopilotToken nowMs cacheKey credentialData cache =
     (let fromStored =
        (let storedToken = copilotToken credentialData;
             storedExpiresAt = copilotTokenExpiresAt credentialData
         in if truthy_string storedToken \<and> truthy_number storedExpiresAt then
              (case (storedToken, storedExpiresAt) of
                 (Some t, Some e) \<Rightarrow>
                   let normalizedExpiresAt = normalizeExpiresAt e
                   in if normalizedExpiresAt
                           > js_add (js_div (of_int nowMs) 1000) TOKEN_REFRESH_BUFFER_SECONDS
                      then (Some t,
                            cache(cacheKey \<mapsto> \<lparr>token = t, expiresAt = normalizedExpiresAt\<rparr>))
                      else (None, cache)
               | _ \<Rightarrow> (None, cache))
            else (None, cache))
      in case cache cacheKey of
           Some cached \<Rightarrow>
             if expiresAt cached
                  > js_add (js_div (of_int nowMs) 1000) TOKEN_REFRESH_BUFFER_SECONDS
             then (Some (token cached), cache)
             else fromStored
         | None \<Rightarrow> fromStored)"

subsection \<open>getCachedCopilotModels\<close>

text \<open>
  \<^verbatim>\<open>const copilotModelCache = new Map<string, { models: INodeOptionsValue[]; expiresAt: number }>()\<close>.
  Here \<open>expiresAt\<close> is in milliseconds and is compared with \<^verbatim>\<open>Date.now()\<close> itself;
  an entry that is no longer valid is deleted.
\<close>

record 'm cached_models =
  models :: "'m list"
  modelsExpiresAt :: rat

definition getCachedCopilotModels ::
  "int \<Rightarrow> string \<Rightarrow> (string \<rightharpoonup> 'm cached_models)
     \<Rightarrow> 'm list option \<times> (string \<rightharpoonup> 'm cached_models)" where
  "getCachedCopilotModels nowMs cacheKey cache =
     (case cache cacheKey of
        Some cached \<Rightarrow>
          if modelsExpiresAt cached > of_int nowMs then (Some (models cached), cache)
          else (None, cache(cacheKey := None))
      | None \<Rightarrow> (None, cache))"

subsection \<open>fetchCopilotToken and getCopilotToken\<close>

text \<open>
  A thrown value is an \<^verbatim>\<open>Error\<close> with its message, or something else. The network is
  a parameter \<open>fetch\<close>: given the URL and the request headers it rejects or yields a
  response with \<^verbatim>\<open>ok\<close>, \<^verbatim>\<open>status\<close>, \<^verbatim>\<open>statusText\<close>, the body as text and the body
  parsed as \<^verbatim>\<open>{ token: string; expires_at: number }\<close> (parsing may throw).
  Every request issued is appended to \<open>fetchLog\<close>, so that a theorem can say that no
  exchange call was made.
\<close>

datatype thrown = ThrownError string | ThrownOther

record token_payload =
  payload_token :: string
  expires_at :: rat

record fetch_response =
  ok :: bool
  status :: nat
  statusText :: string
  bodyText :: string
  bodyJson :: "thrown + token_payload"

type_synonym headers = "(string \<times> string) list"

type_synonym fetch_fn = "string \<Rightarrow> headers \<Rightarrow> thrown + fetch_response"

record copilot_state =
  copilotTokenCache :: token_cache
  fetchLog :: "(string \<times> headers) list"

text \<open>Decimal digits of a number, for \<^verbatim>\<open>${response.status}\<close>.\<close>

fun show_nat :: "nat \<Rightarrow> string" where
  "show_nat n =
     (if n < 10 then [char_of (48 + n)]
      else show_nat (n div 10) @ [char_of (48 + n mod 10)])"

definition fetchCopilotToken ::
  "fetch_fn \<Rightarrow> string \<Rightarrow> copilot_state \<Rightarrow> (thrown + cached_token) \<times> copilot_state" where
  "fetchCopilotToken fetch githubAccessToken st =
     (let hdrs = (''Authorization'', ''token '' @ githubAccessToken) # COPILOT_HEADERS;
          st1 = st\<lparr>fetchLog := fetchLog st @ [(COPILOT_TOKEN_URL, hdrs)]\<rparr>
      in case fetch COPILOT_TOKEN_URL hdrs of
           Inl e \<Rightarrow> (Inl e, st1)
         | Inr response \<Rightarrow>
             if \<not> ok response then
               (Inl (ThrownError (''Failed to get Copilot token: '' @ show_nat (status response)
                       @ '' '' @ statusText response @ '' - '' @ bodyText response)), st1)
             else
               (case bodyJson response of
                  Inl e \<Rightarrow> (Inl e, st1)
                | Inr data \<Rightarrow>
                    (Inr \<lparr>token = payload_token data,
                          expiresAt = normalizeExpiresAt (expires_at data)\<rparr>, st1)))"

text \<open>
  \<^verbatim>\<open>const cached = getCachedCopilotToken(cacheKey, credentialData); if (cached) return cached\<close>:
  the test is JavaScript truthiness of a string, so an empty cached token counts as no
  token and the exchange runs.
\<close>

definition getCopilotToken ::
  "fetch_fn \<Rightarrow> int \<Rightarrow> string \<Rightarrow> string \<Rightarrow> credential_data \<Rightarrow> copilot_state
     \<Rightarrow> (thrown + string) \<times> copilot_state" where
  "getCopilotToken fetch nowMs cacheKey githubAccessToken credentialData st =
     (case getCachedCopilotToken nowMs cacheKey credentialData (copilotTokenCache st) of
        (cached, cache1) \<Rightarrow>
          let st1 = st\<lparr>copilotTokenCache := cache1\<rparr>;
              exchange =
                (case fetchCopilotToken fetch githubAccessToken st1 of
                   (Inl e, st2) \<Rightarrow> (Inl e, st2)
                 | (Inr r, st2) \<Rightarrow>
                     (Inr (token r),
                      st2\<lparr>copilotTokenCache :=
                            (copilotTokenCache st2)(cacheKey \<mapsto>
                               \<lparr>token = token r, expiresAt = expiresAt r\<rparr>)\<rparr>))
          in case cached of
               Some t \<Rightarrow> if t \<noteq> [] then (Inr t, st1) else exchange
             | None \<Rightarrow> exchange)"

section \<open>routes/github-copilot/index.ts\<close>

subsection \<open>JavaScript values and objects\<close>

text \<open>
  The decrypted credential data is a \<^verbatim>\<open>Record<string, unknown>\<close> and the bodies of
  requests and of upstream responses are parsed JSON, so a property holds any JSON
  value; \<open>JUndefined\<close> is what reading a missing property gives. The casts of the
  source (\<^verbatim>\<open>as string | undefined\<close>) do nothing at run time, and the model does
  nothing for them either. An object is a finite map from property names to values.
\<close>

datatype jsvalue =
    JUndefined
  | JNull
  | JBool bool
  | JNum rat
  | JStr string
  | JArr "jsvalue list"
  | JObj "(string \<times> jsvalue) list"

type_synonym bag = "string \<rightharpoonup> jsvalue"

text \<open>JavaScript truthiness, the test behind \<^verbatim>\<open>!x\<close>, \<^verbatim>\<open>if (x)\<close> and \<^verbatim>\<open>x || y\<close>.\<close>

fun truthy :: "jsvalue \<Rightarrow> bool" where
  "truthy JUndefined = False"
| "truthy JNull = False"
| "truthy (JBool b) = b"
| "truthy (JNum n) = (n \<noteq> 0)"
| "truthy (JStr s) = (s \<noteq> [])"
| "truthy (JArr xs) = True"
| "truthy (JObj kvs) = True"

definition js_or :: "jsvalue \<Rightarrow> jsvalue \<Rightarrow> jsvalue" where
  "js_or a b = (if truthy a then a else b)"

definition get_prop :: "bag \<Rightarrow> string \<Rightarrow> jsvalue" where
  "get_prop obj k = (case obj k of None \<Rightarrow> JUndefined | Some v \<Rightarrow> v)"

text \<open>\<^verbatim>\<open>req.body?.k\<close>: the body itself may be missing.\<close>

definition body_prop :: "bag option \<Rightarrow> string \<Rightarrow> jsvalue" where
  "body_prop body k = (case body of None \<Rightarrow> JUndefined | Some obj \<Rightarrow> get_prop obj k)"

text \<open>\<^verbatim>\<open>process.env.K\<close>: a string when the variable is set.\<close>

definition env_var :: "(string \<rightharpoonup> string) \<Rightarrow> string \<Rightarrow> jsvalue" where
  "env_var env k = (case env k of None \<Rightarrow> JUndefined | Some s \<Rightarrow> JStr s)"

subsection \<open>Constants and resolveDeviceFlowConfig\<close>

definition DEFAULT_GITHUB_DEVICE_FLOW_CLIENT_ID :: string where
  "DEFAULT_GITHUB_DEVICE_FLOW_CLIENT_ID = ''Iv1.b507a08c87ecfe98''"

definition DEFAULT_GITHUB_DEVICE_FLOW_SCOPE :: string where
  "DEFAULT_GITHUB_DEVICE_FLOW_SCOPE = ''read:user workflow repo''"

definition DEVICE_CODE_URL :: string where
  "DEVICE_CODE_URL = ''https://github.com/login/device/code''"

definition ACCESS_TOKEN_URL :: string where
  "ACCESS_TOKEN_URL = ''https://github.com/login/oauth/access_token''"

record device_flow_config =
  clientId :: jsvalue
  scope :: jsvalue

definition resolveDeviceFlowConfig :: "(string \<rightharpoonup> string) \<Rightarrow> bag \<Rightarrow> device_flow_config" where
  "resolveDeviceFlowConfig env credentialData =
     \<lparr>clientId =
        js_or (get_prop credentialData ''deviceFlowClientId'')
          (js_or (get_prop credentialData ''clientId'')
             (js_or (env_var env ''GITHUB_DEVICE_FLOW_CLIENT_ID'')
                (JStr DEFAULT_GITHUB_DEVICE_FLOW_CLIENT_ID))),
      scope =
        js_or (get_prop credentialData ''deviceFlowScope'')
          (js_or (get_prop credentialData ''scope'')
             (js_or (env_var env ''GITHUB_DEVICE_FLOW_SCOPE'')
                (JStr DEFAULT_GITHUB_DEVICE_FLOW_SCOPE)))\<rparr>"

subsection \<open>The credential store, the collaborators and the responses\<close>

text \<open>
  The credential repository maps a credential id to the row found by
  \<^verbatim>\<open>findOneBy({ id })\<close>; of the \<^verbatim>\<open>Credential\<close> entity the handlers use
  \<^verbatim>\<open>encryptedData\<close> and \<^verbatim>\<open>updatedDate\<close>. Every access to the repository, to the
  encryption helpers and to the network is appended to \<open>effects\<close>, in the order of the
  source.
\<close>

record credential =
  encryptedData :: string
  updatedDate :: int

datatype effect =
    FindOneBy string
  | DecryptCredentialData string
  | AxiosPost string bag headers
  | EncryptCredentialData bag
  | RepositoryUpdate string

record server_state =
  credentials :: "string \<rightharpoonup> credential"
  effects :: "effect list"

text \<open>
  The collaborators, whose code is outside the two files: the encryption helpers
  (\<^verbatim>\<open>decryptCredentialData\<close>, \<^verbatim>\<open>encryptCredentialData\<close>), \<^verbatim>\<open>axios.post\<close> (which throws on
  a transport error and on a status outside 2xx, and otherwise yields the parsed body),
  the process environment and the clock (\<^verbatim>\<open>new Date().toISOString()\<close>, \<^verbatim>\<open>new Date()\<close>).
  Each of the first three may throw, which the handlers catch. A body that
  \<^verbatim>\<open>axios.post\<close> yields is a JSON object, as the source's type for \<^verbatim>\<open>tokenData\<close>
  says. The repository is a map held in the state: \<^verbatim>\<open>findOneBy\<close> is a lookup and
  \<^verbatim>\<open>update\<close> an update of the row, and neither fails.
\<close>

record externals =
  decryptCredentialData :: "string \<Rightarrow> thrown + bag"
  encryptCredentialData :: "bag \<Rightarrow> thrown + string"
  axios_post :: "string \<Rightarrow> bag \<Rightarrow> headers \<Rightarrow> thrown + bag"
  process_env :: "string \<rightharpoonup> string"
  newDateISOString :: string
  newDate :: int

text \<open>
  A handler ends with \<^verbatim>\<open>res.status(s).json(body)\<close> (status 200 when not set) or, from
  the \<^verbatim>\<open>catch\<close>, with \<^verbatim>\<open>next(new InternalFlowiseError(500, message))\<close>.
\<close>

datatype response = Json nat bag | NextError nat string

definition error_message :: "thrown \<Rightarrow> string" where
  "error_message e = (case e of ThrownError m \<Rightarrow> m | ThrownOther \<Rightarrow> ''Unknown error'')"

definition JSON_HEADERS :: headers where
  "JSON_HEADERS = [(''Content-Type'', ''application/json''), (''Accept'', ''application/json'')]"

definition record_effect :: "effect \<Rightarrow> server_state \<Rightarrow> server_state" where
  "record_effect e st = st\<lparr>effects := effects st @ [e]\<rparr>"

subsection \<open>POST /device/:credentialId\<close>

definition startDeviceFlow ::
  "externals \<Rightarrow> string \<Rightarrow> server_state \<Rightarrow> response \<times> server_state" where
  "startDeviceFlow x credentialId st =
     (let st1 = record_effect (FindOneBy credentialId) st
      in case credentials st credentialId of
           None \<Rightarrow>
             (Json 404 [''success'' \<mapsto> JBool False, ''message'' \<mapsto> JStr ''Credential not found''],
              st1)
         | Some credential \<Rightarrow>
             let st2 = record_effect (DecryptCredentialData (encryptedData credential)) st1
             in case decryptCredentialData x (encryptedData credential) of
                  Inl e \<Rightarrow>
                    (NextError 500 (''GitHub device flow init error: '' @ error_message e), st2)
                | Inr decryptedData \<Rightarrow>
                    let cfg = resolveDeviceFlowConfig (process_env x) decryptedData
                    in if \<not> truthy (clientId cfg) then
                         (Json 400 [''success'' \<mapsto> JBool False,
                                    ''message'' \<mapsto> JStr ''Missing GitHub device flow client ID''],
                          st2)
                       else
                         let payload = [''client_id'' \<mapsto> clientId cfg, ''scope'' \<mapsto> scope cfg];
                             st3 = record_effect (AxiosPost DEVICE_CODE_URL payload JSON_HEADERS) st2
                         in case axios_post x DEVICE_CODE_URL payload JSON_HEADERS of
                              Inl e \<Rightarrow>
                                (NextError 500
                                   (''GitHub device flow init error: '' @ error_message e), st3)
                            | Inr data \<Rightarrow>
                                (Json 200
                                   ([''success'' \<mapsto> JBool True,
                                     ''credentialId'' \<mapsto> JStr credentialId] ++ data),
                                 st3))"

subsection \<open>POST /device/poll/:credentialId\<close>

definition pollDeviceFlow ::
  "externals \<Rightarrow> string \<Rightarrow> bag option \<Rightarrow> server_state \<Rightarrow> response \<times> server_state" where
  "pollDeviceFlow x credentialId body st =
     (let deviceCode = js_or (body_prop body ''deviceCode'') (body_prop body ''device_code'')
      in if \<not> truthy deviceCode then
           (Json 400 [''success'' \<mapsto> JBool False,
                      ''message'' \<mapsto> JStr ''Missing deviceCode in request body''], st)
         else
           let st1 = record_effect (FindOneBy credentialId) st
           in case credentials st credentialId of
                None \<Rightarrow>
                  (Json 404 [''success'' \<mapsto> JBool False,
                             ''message'' \<mapsto> JStr ''Credential not found''], st1)
              | Some credential \<Rightarrow>
                  let st2 = record_effect (DecryptCredentialData (encryptedData credential)) st1
                  in case decryptCredentialData x (encryptedData credential) of
                       Inl e \<Rightarrow>
                         (NextError 500
                            (''GitHub device flow polling error: '' @ error_message e), st2)
                     | Inr decryptedData \<Rightarrow>
                         let cfg = resolveDeviceFlowConfig (process_env x) decryptedData
                         in if \<not> truthy (clientId cfg) then
                              (Json 400 [''success'' \<mapsto> JBool False,
                                         ''message'' \<mapsto>
                                           JStr ''Missing GitHub device flow client ID''], st2)
                            else
                              let payload =
                                    [''client_id'' \<mapsto> clientId cfg,
                                     ''device_code'' \<mapsto> deviceCode,
                                     ''grant_type'' \<mapsto>
                                       JStr ''urn:ietf:params:oauth:grant-type:device_code''];
                                  st3 = record_effect
                                          (AxiosPost ACCESS_TOKEN_URL payload JSON_HEADERS) st2
                              in case axios_post x ACCESS_TOKEN_URL payload JSON_HEADERS of
                                   Inl e \<Rightarrow>
                                     (NextError 500
                                        (''GitHub device flow polling error: ''
                                           @ error_message e), st3)
                                 | Inr tokenData \<Rightarrow>
                                     if truthy (get_prop tokenData ''access_token'') then
                                       let updatedCredentialData =
                                             decryptedData
                                               (''githubAccessToken'' \<mapsto>
                                                  get_prop tokenData ''access_token'',
                                                ''githubTokenType'' \<mapsto>
                                                  get_prop tokenData ''token_type'',
                                                ''githubTokenScope'' \<mapsto>
                                                  get_prop tokenData ''scope'',
                                                ''githubTokenReceivedAt'' \<mapsto>
                                                  JStr (newDateISOString x));
                                           st4 = record_effect
                                                   (EncryptCredentialData updatedCredentialData) st3
                                       in case encryptCredentialData x updatedCredentialData of
                                            Inl e \<Rightarrow>
                                              (NextError 500
                                                 (''GitHub device flow polling error: ''
                                                    @ error_message e), st4)
                                          | Inr encrypted \<Rightarrow>
                                              (Json 200
                                                 [''success'' \<mapsto> JBool True,
                                                  ''status'' \<mapsto> JStr ''authorized'',
                                                  ''credentialId'' \<mapsto> JStr credentialId],
                                               record_effect (RepositoryUpdate credentialId)
                                                 (st4\<lparr>credentials :=
                                                    (credentials st4)(credentialId \<mapsto>
                                                       credential\<lparr>encryptedData := encrypted,
                                                         updatedDate := newDate x\<rparr>)\<rparr>))
                                     else if get_prop tokenData ''error'' = JStr ''authorization_pending''
                                             \<or> get_prop tokenData ''error'' = JStr ''slow_down'' then
                                       (Json 200
                                          [''success'' \<mapsto> JBool False,
                                           ''status'' \<mapsto> get_prop tokenData ''error'',
                                           ''error_description'' \<mapsto>
                                             get_prop tokenData ''error_description''], st3)
                                     else
                                       (Json 400
                                          [''success'' \<mapsto> JBool False,
                                           ''status'' \<mapsto>
                                             js_or (get_prop tokenData ''error'')
                                               (JStr ''unknown_error''),
                                           ''message'' \<mapsto>
                                             js_or (get_prop tokenData ''error_description'')
                                               (JStr ''Device flow failed'')], st3))"

section \<open>Concrete inputs\<close>

text \<open>
  Inputs on which the definitions are evaluated below. The example collaborators
  decrypt the blob \<open>blob-1\<close> to the bag \<open>{note: "keep"}\<close>, seal a bag by its
  \<open>githubAccessToken\<close>, and answer every upstream request with the given result. The
  example store holds the single credential \<open>cred-1\<close>. The example exchange endpoint
  answers 200 with the given token, expiring at 1893456000.
\<close>

definition example_externals :: "thrown + bag \<Rightarrow> externals" where
  "example_externals upstream =
     \<lparr>decryptCredentialData =
        (\<lambda>blob. if blob = ''blob-1'' then Inr [''note'' \<mapsto> JStr ''keep'']
                else Inl (ThrownError ''bad blob'')),
      encryptCredentialData =
        (\<lambda>b. case b ''githubAccessToken'' of
                Some (JStr s) \<Rightarrow> Inr (''sealed:'' @ s)
              | _ \<Rightarrow> Inl (ThrownError ''no token'')),
      axios_post = (\<lambda>url payload hdrs. upstream),
      process_env = Map.empty,
      newDateISOString = ''2026-01-01T00:00:00.000Z'',
      newDate = 1767225600000\<rparr>"

definition example_state :: server_state where
  "example_state =
     \<lparr>credentials = [''cred-1'' \<mapsto> \<lparr>encryptedData = ''blob-1'', updatedDate = 0\<rparr>],
      effects = []\<rparr>"

definition example_fetch :: "string \<Rightarrow> fetch_fn" where
  "example_fetch tok url hdrs =
     Inr \<lparr>ok = True, status = 200, statusText = ''OK'', bodyText = [],
          bodyJson = Inr \<lparr>payload_token = tok, expires_at = 1893456000\<rparr>\<rparr>"

definition no_stored_token :: credential_data where
  "no_stored_token = \<lparr>copilotToken = None, copilotTokenExpiresAt = None\<rparr>"

section \<open>Properties\<close>

subsection \<open>Rounding to binary64\<close>




lemma round_half_even_of_int [simp]: "round_half_even (of_int m) = m"
  by (simp add: round_half_even_def)






text \<open>
  Values of the rounded operations at the inputs used below, computed by unfolding the
  bisection and then the rounding.
\<close>

lemma floor_rat_numeral_div: "\<lfloor>numeral a / numeral b :: rat\<rfloor> = numeral a div numeral b"
  by (metis floor_divide_of_int_eq of_int_numeral)

lemma js_div_0: "js_div 0 1000 = 0"
  by (simp add: js_div_def fl64_def)

lemma js_add_0_300: "js_add 0 300 = 300"
  unfolding js_add_def fl64_def binade_def Let_def
  apply (simp add: binary_exponent.simps)
  apply (simp add: round_half_even_def Let_def floor_rat_numeral_div)
  done



lemma js_div_2000000: "js_div 2000000 1000 = 2000"
  unfolding js_div_def fl64_def binade_def Let_def
  apply (simp add: binary_exponent.simps)
  apply (simp add: round_half_even_def Let_def floor_rat_numeral_div)
  done

lemma js_add_2000_300: "js_add 2000 300 = 2300"
  unfolding js_add_def fl64_def binade_def Let_def
  apply (simp add: binary_exponent.simps)
  apply (simp add: round_half_even_def Let_def floor_rat_numeral_div)
  done

lemma js_threshold_0: "js_add (js_div 0 1000) 300 = 300"
  by (simp add: js_div_0 js_add_0_300)


lemma js_threshold_2000000: "js_add (js_div 2000000 1000) 300 = 2300"
  by (simp add: js_div_2000000 js_add_2000_300)

lemma js_div_1700000000002: "js_div 1700000000002 1000 = 7130316800008389 / 4194304"
  unfolding js_div_def fl64_def binade_def Let_def
  apply (simp add: binary_exponent.simps)
  apply (simp add: round_half_even_def Let_def floor_rat_numeral_div)
  done

lemma js_add_300_1700000000002:
  "js_add (7130316800008389 / 4194304) 300 = 7130318058299589 / 4194304"
  unfolding js_add_def fl64_def binade_def Let_def
  apply (simp add: binary_exponent.simps)
  apply (simp add: round_half_even_def Let_def floor_rat_numeral_div)
  done

lemma fl64_1700000300002: "fl64 (1700000300002 / 1000) = 7130318058299589 / 4194304"
  unfolding fl64_def binade_def Let_def
  apply (simp add: binary_exponent.simps)
  apply (simp add: round_half_even_def Let_def floor_rat_numeral_div)
  done

lemma js_div_1893456000000: "js_div 1893456000000 1000 = 1893456000"
  unfolding js_div_def fl64_def binade_def Let_def
  apply (simp add: binary_exponent.simps)
  apply (simp add: round_half_even_def Let_def floor_rat_numeral_div)
  done

lemma js_div_9007199254740993024: "js_div 9007199254740993024 1000 = 9007199254740994"
  unfolding js_div_def fl64_def binade_def Let_def
  apply (simp add: binary_exponent.simps)
  apply (simp add: round_half_even_def Let_def floor_rat_numeral_div)
  done

lemma normalizeExpiresAt_1893456000000: "normalizeExpiresAt 1893456000000 = 1893456000"
  by (simp add: normalizeExpiresAt_def js_div_1893456000000)

text \<open>
  Rounding is visible at the edge of the freshness test. At the clock reading
  1700000000002 the threshold \<^verbatim>\<open>Date.now() / 1000 + 300\<close> is the binary64 value nearest
  to 1700000300.002, that is 7130318058299589 / 4194304, which lies above the exact
  sum; an entry expiring at that very value is therefore not fresh, and the lookup
  answers \<^verbatim>\<open>undefined\<close>.
\<close>

lemma getCachedCopilotToken_rounded_threshold_evaluated:
  "(7130318058299589 / 4194304 :: rat) > of_int 1700000000002 / 1000 + 300
   \<and> getCachedCopilotToken 1700000000002 ''cred-1'' no_stored_token
        [''cred-1'' \<mapsto> \<lparr>token = ''tok'', expiresAt = 7130318058299589 / 4194304\<rparr>]
      = (None, [''cred-1'' \<mapsto> \<lparr>token = ''tok'', expiresAt = 7130318058299589 / 4194304\<rparr>])"
  by (simp add: getCachedCopilotToken_def TOKEN_REFRESH_BUFFER_SECONDS_def Let_def
        truthy_string_def truthy_number_def no_stored_token_def
        js_div_1700000000002 js_add_300_1700000000002)

text \<open>
  The same holds on the other two paths at that instant: a stored token expiring at
  that value is not seeded, and \<open>getCopilotToken\<close> does not return a cached token
  expiring at that value but calls the exchange endpoint.
\<close>

lemma getCachedCopilotToken_rounded_threshold_stored_evaluated:
  "getCachedCopilotToken 1700000000002 ''cred-1''
        \<lparr>copilotToken = Some ''stored'',
           copilotTokenExpiresAt = Some (7130318058299589 / 4194304)\<rparr>
        [''cred-1'' \<mapsto> \<lparr>token = ''old'', expiresAt = 2000\<rparr>]
      = (None, [''cred-1'' \<mapsto> \<lparr>token = ''old'', expiresAt = 2000\<rparr>])"
  by (simp add: getCachedCopilotToken_def TOKEN_REFRESH_BUFFER_SECONDS_def Let_def
        truthy_string_def truthy_number_def normalizeExpiresAt_def
        js_div_1700000000002 js_add_300_1700000000002)

lemma getCopilotToken_rounded_threshold_evaluated:
  "getCopilotToken (example_fetch ''exchanged'') 1700000000002 ''cred-1'' ''gho_abc''
        no_stored_token
        \<lparr>copilotTokenCache =
           [''cred-1'' \<mapsto> \<lparr>token = ''tok'', expiresAt = 7130318058299589 / 4194304\<rparr>],
         fetchLog = []\<rparr>
      = (Inr ''exchanged'',
         \<lparr>copilotTokenCache = [''cred-1'' \<mapsto> \<lparr>token = ''exchanged'', expiresAt = 1893456000\<rparr>],
          fetchLog = [(COPILOT_TOKEN_URL, (''Authorization'', ''token gho_abc'') # COPILOT_HEADERS)]\<rparr>)"
  by (simp add: getCopilotToken_def fetchCopilotToken_def getCachedCopilotToken_def
        TOKEN_REFRESH_BUFFER_SECONDS_def Let_def example_fetch_def no_stored_token_def
        truthy_string_def truthy_number_def normalizeExpiresAt_def
        js_div_1700000000002 js_add_300_1700000000002)

text \<open>
  Beyond \<open>2^53\<close> the quotient is rounded before the floor is taken, and the result can
  differ from the floor of the exact quotient.
\<close>

lemma normalizeExpiresAt_rounded_quotient_evaluated:
  "normalizeExpiresAt 9007199254740993024 = 9007199254740994
   \<and> \<lfloor>9007199254740993024 / 1000 :: rat\<rfloor> = 9007199254740993"
  by (simp add: normalizeExpiresAt_def js_div_9007199254740993024 floor_rat_numeral_div)

subsection \<open>Auxiliary facts\<close>

lemma truthy_js_or: "truthy b \<Longrightarrow> truthy (js_or a b)"
  by (simp add: js_or_def)

lemma resolveDeviceFlowConfig_clientId_truthy:
  "truthy (clientId (resolveDeviceFlowConfig env cd))"
  by (simp add: resolveDeviceFlowConfig_def truthy_js_or DEFAULT_GITHUB_DEVICE_FLOW_CLIENT_ID_def)

lemma body_differs_message:
  "b ''message'' \<noteq> Some (JStr ''Missing GitHub device flow client ID'')
   \<Longrightarrow> (b = [''success'' \<mapsto> JBool False,
            ''message'' \<mapsto> JStr ''Missing GitHub device flow client ID'']) = False"
  by auto

lemma body_differs_status:
  "b ''status'' \<noteq> None
   \<Longrightarrow> (b = [''success'' \<mapsto> JBool False,
            ''message'' \<mapsto> JStr ''Missing GitHub device flow client ID'']) = False"
  by auto

text \<open>
  Once the device code is present, the credential is found, decrypts, and the token
  endpoint answers with a body, the poll handler is decided by that body alone.
\<close>

lemma poll_reaches_upstream:
  assumes "truthy (js_or (body_prop body ''deviceCode'') (body_prop body ''device_code''))"
    and "credentials st credentialId = Some credential"
    and "decryptCredentialData x (encryptedData credential) = Inr decryptedData"
    and "axios_post x ACCESS_TOKEN_URL
           [''client_id'' \<mapsto> clientId (resolveDeviceFlowConfig (process_env x) decryptedData),
            ''device_code'' \<mapsto> js_or (body_prop body ''deviceCode'') (body_prop body ''device_code''),
            ''grant_type'' \<mapsto> JStr ''urn:ietf:params:oauth:grant-type:device_code'']
           JSON_HEADERS = Inr tokenData"
  shows "pollDeviceFlow x credentialId body st =
     (let st3 = record_effect (AxiosPost ACCESS_TOKEN_URL
           [''client_id'' \<mapsto> clientId (resolveDeviceFlowConfig (process_env x) decryptedData),
            ''device_code'' \<mapsto> js_or (body_prop body ''deviceCode'') (body_prop body ''device_code''),
            ''grant_type'' \<mapsto> JStr ''urn:ietf:params:oauth:grant-type:device_code'']
           JSON_HEADERS)
          (record_effect (DecryptCredentialData (encryptedData credential))
             (record_effect (FindOneBy credentialId) st))
      in if truthy (get_prop tokenData ''access_token'') then
           let updatedCredentialData =
                 decryptedData
                   (''githubAccessToken'' \<mapsto> get_prop tokenData ''access_token'',
                    ''githubTokenType'' \<mapsto> get_prop tokenData ''token_type'',
                    ''githubTokenScope'' \<mapsto> get_prop tokenData ''scope'',
                    ''githubTokenReceivedAt'' \<mapsto> JStr (newDateISOString x));
               st4 = record_effect (EncryptCredentialData updatedCredentialData) st3
           in case encryptCredentialData x updatedCredentialData of
                Inl e \<Rightarrow> (NextError 500 (''GitHub device flow polling error: '' @ error_message e), st4)
              | Inr encrypted \<Rightarrow>
                  (Json 200 [''success'' \<mapsto> JBool True, ''status'' \<mapsto> JStr ''authorized'',
                             ''credentialId'' \<mapsto> JStr credentialId],
                   record_effect (RepositoryUpdate credentialId)
                     (st4\<lparr>credentials := (credentials st4)(credentialId \<mapsto>
                         credential\<lparr>encryptedData := encrypted, updatedDate := newDate x\<rparr>)\<rparr>))
         else if get_prop tokenData ''error'' = JStr ''authorization_pending''
                 \<or> get_prop tokenData ''error'' = JStr ''slow_down'' then
           (Json 200 [''success'' \<mapsto> JBool False, ''status'' \<mapsto> get_prop tokenData ''error'',
                      ''error_description'' \<mapsto> get_prop tokenData ''error_description''], st3)
         else
           (Json 400 [''success'' \<mapsto> JBool False,
                      ''status'' \<mapsto> js_or (get_prop tokenData ''error'') (JStr ''unknown_error''),
                      ''message'' \<mapsto> js_or (get_prop tokenData ''error_description'')
                                      (JStr ''Device flow failed'')], st3))"
  using assms
  by (simp add: pollDeviceFlow_def Let_def resolveDeviceFlowConfig_clientId_truthy)

lemma pollDeviceFlow_authorized:
  assumes "truthy (js_or (body_prop body ''deviceCode'') (body_prop body ''device_code''))"
    and "credentials st credentialId = Some credential"
    and "decryptCredentialData x (encryptedData credential) = Inr decryptedData"
    and "axios_post x ACCESS_TOKEN_URL
           [''client_id'' \<mapsto> clientId (resolveDeviceFlowConfig (process_env x) decryptedData),
            ''device_code'' \<mapsto> js_or (body_prop body ''deviceCode'') (body_prop body ''device_code''),
            ''grant_type'' \<mapsto> JStr ''urn:ietf:params:oauth:grant-type:device_code'']
           JSON_HEADERS = Inr tokenData"
    and "truthy (get_prop tokenData ''access_token'')"
    and "encryptCredentialData x
           (decryptedData(''githubAccessToken'' \<mapsto> get_prop tokenData ''access_token'',
              ''githubTokenType'' \<mapsto> get_prop tokenData ''token_type'',
              ''githubTokenScope'' \<mapsto> get_prop tokenData ''scope'',
              ''githubTokenReceivedAt'' \<mapsto> JStr (newDateISOString x))) = Inr encrypted"
  shows "pollDeviceFlow x credentialId body st =
     (Json 200 [''success'' \<mapsto> JBool True, ''status'' \<mapsto> JStr ''authorized'',
                ''credentialId'' \<mapsto> JStr credentialId],
      \<lparr>credentials = (credentials st)(credentialId \<mapsto>
           credential\<lparr>encryptedData := encrypted, updatedDate := newDate x\<rparr>),
       effects = effects st @
                   [FindOneBy credentialId,
                    DecryptCredentialData (encryptedData credential),
                    AxiosPost ACCESS_TOKEN_URL
                      [''client_id'' \<mapsto> clientId (resolveDeviceFlowConfig (process_env x) decryptedData),
                       ''device_code'' \<mapsto> js_or (body_prop body ''deviceCode'') (body_prop body ''device_code''),
                       ''grant_type'' \<mapsto> JStr ''urn:ietf:params:oauth:grant-type:device_code'']
                      JSON_HEADERS,
                    EncryptCredentialData
                      (decryptedData(''githubAccessToken'' \<mapsto> get_prop tokenData ''access_token'',
                         ''githubTokenType'' \<mapsto> get_prop tokenData ''token_type'',
                         ''githubTokenScope'' \<mapsto> get_prop tokenData ''scope'',
                         ''githubTokenReceivedAt'' \<mapsto> JStr (newDateISOString x))),
                    RepositoryUpdate credentialId]\<rparr>)"
  using assms(5,6)
  by (simp add: poll_reaches_upstream[OF assms(1-4)] Let_def record_effect_def)

text \<open>
  The token lookup has no \<^verbatim>\<open>delete\<close>: when it answers \<^verbatim>\<open>undefined\<close> for a stale
  entry, the entry is still in the map afterwards.
\<close>

lemma getCachedCopilotToken_stale_entry_evaluated:
  "getCachedCopilotToken 2000000 ''cred-1'' no_stored_token
       [''cred-1'' \<mapsto> \<lparr>token = ''old'', expiresAt = 2000\<rparr>]
     = (None, [''cred-1'' \<mapsto> \<lparr>token = ''old'', expiresAt = 2000\<rparr>])"
  by (simp add: getCachedCopilotToken_def TOKEN_REFRESH_BUFFER_SECONDS_def Let_def
        truthy_string_def truthy_number_def no_stored_token_def js_threshold_2000000)

text \<open>
  An empty token gets into the cache when the exchange endpoint answers with one:
  \<open>getCopilotToken\<close> caches and returns whatever \<^verbatim>\<open>data.token\<close> is.
\<close>

lemma getCopilotToken_caches_empty_token:
  "getCopilotToken (example_fetch []) 0 ''cred-1'' ''gho_abc'' no_stored_token
        \<lparr>copilotTokenCache = Map.empty, fetchLog = []\<rparr>
      = (Inr [],
         \<lparr>copilotTokenCache = [''cred-1'' \<mapsto> \<lparr>token = [], expiresAt = 1893456000\<rparr>],
          fetchLog = [(COPILOT_TOKEN_URL, (''Authorization'', ''token gho_abc'') # COPILOT_HEADERS)]\<rparr>)"
  by (simp add: getCopilotToken_def fetchCopilotToken_def getCachedCopilotToken_def
        TOKEN_REFRESH_BUFFER_SECONDS_def Let_def example_fetch_def no_stored_token_def
        truthy_string_def truthy_number_def normalizeExpiresAt_def js_threshold_0)

subsection \<open>The token cache\<close>



text \<open>
  C2, as amended. The model cache evicts on read: for a key whose entry has
  \<open>expiresAt \<le> now\<close> (milliseconds, no buffer), \<open>getCachedCopilotModels\<close> returns
  \<^verbatim>\<open>undefined\<close> and the cache no longer has an entry for the key. The token cache
  never returns the stale token: for a key whose entry has \<open>expiresAt \<le> now + 300\<close>
  (the value of the source's \<^verbatim>\<open>Date.now() / 1000 + TOKEN_REFRESH_BUFFER_SECONDS\<close>),
  \<open>getCachedCopilotToken\<close> returns \<^verbatim>\<open>undefined\<close> when the credential snapshot holds no
  usable fresh stored token (a non-empty token with a non-zero expiry whose normalized
  value exceeds \<open>now + 300\<close>); when it holds one, the lookup returns the stored token and
  the entry for the key is overwritten with the seeded one.
\<close>

theorem stale_entry_lookup:
  "(mcache k = Some m \<and> modelsExpiresAt m \<le> of_int nowMs
      \<longrightarrow> getCachedCopilotModels nowMs k mcache = (None, mcache(k := None))
          \<and> snd (getCachedCopilotModels nowMs k mcache) k = None)
   \<and> (cache k = Some c \<and> expiresAt c \<le> js_add (js_div (of_int nowMs) 1000) 300
        \<and> \<not> (\<exists>t e. copilotToken cd = Some t \<and> t \<noteq> [] \<and> copilotTokenExpiresAt cd = Some e
                    \<and> e \<noteq> 0 \<and> normalizeExpiresAt e > js_add (js_div (of_int nowMs) 1000) 300)
      \<longrightarrow> fst (getCachedCopilotToken nowMs k cd cache) = None)
   \<and> (cache k = Some c \<and> expiresAt c \<le> js_add (js_div (of_int nowMs) 1000) 300
        \<and> copilotToken cd = Some t \<and> t \<noteq> [] \<and> copilotTokenExpiresAt cd = Some e \<and> e \<noteq> 0
        \<and> normalizeExpiresAt e > js_add (js_div (of_int nowMs) 1000) 300
      \<longrightarrow> getCachedCopilotToken nowMs k cd cache
            = (Some t, cache(k \<mapsto> \<lparr>token = t, expiresAt = normalizeExpiresAt e\<rparr>)))"
  by (auto simp: getCachedCopilotToken_def getCachedCopilotModels_def
        TOKEN_REFRESH_BUFFER_SECONDS_def Let_def
        truthy_string_def truthy_number_def split: option.splits if_splits)

theorem stale_entry_lookup_witness:
  "getCachedCopilotModels 5000 ''models-key''
       [''models-key'' \<mapsto> \<lparr>models = [''gpt-4o''], modelsExpiresAt = 4000\<rparr>]
     = (None, Map.empty)
   \<and> fst (getCachedCopilotToken 2000000 ''cred-1'' no_stored_token
            [''cred-1'' \<mapsto> \<lparr>token = ''old'', expiresAt = 2000\<rparr>]) = None
   \<and> getCachedCopilotToken 2000000 ''cred-1''
        \<lparr>copilotToken = Some ''stored'', copilotTokenExpiresAt = Some 1893456000\<rparr>
        [''cred-1'' \<mapsto> \<lparr>token = ''old'', expiresAt = 2000\<rparr>]
      = (Some ''stored'', [''cred-1'' \<mapsto> \<lparr>token = ''stored'', expiresAt = 1893456000\<rparr>])"
  using stale_entry_lookup
          [of "[''models-key'' \<mapsto> \<lparr>models = [''gpt-4o''], modelsExpiresAt = 4000\<rparr>]"
              "''models-key''" "\<lparr>models = [''gpt-4o''], modelsExpiresAt = 4000\<rparr>" 5000
              Map.empty "\<lparr>token = ''old'', expiresAt = 2000\<rparr>" no_stored_token "[]" 0]
        stale_entry_lookup
          [of Map.empty "''cred-1''" "\<lparr>models = [], modelsExpiresAt = 0\<rparr>" 2000000
              "[''cred-1'' \<mapsto> \<lparr>token = ''old'', expiresAt = 2000\<rparr>]"
              "\<lparr>token = ''old'', expiresAt = 2000\<rparr>" no_stored_token "[]" 0]
        stale_entry_lookup
          [of Map.empty "''cred-1''" "\<lparr>models = [], modelsExpiresAt = 0\<rparr>" 2000000
              "[''cred-1'' \<mapsto> \<lparr>token = ''old'', expiresAt = 2000\<rparr>]"
              "\<lparr>token = ''old'', expiresAt = 2000\<rparr>"
              "\<lparr>copilotToken = Some ''stored'', copilotTokenExpiresAt = Some 1893456000\<rparr>"
              "''stored''" 1893456000]
  by (simp add: no_stored_token_def normalizeExpiresAt_def js_threshold_2000000)

text \<open>
  The claim as first stated fails on the token cache: with a stale entry for
  \<open>cred-1\<close> and a fresh stored token in the credential snapshot, the lookup returns
  the stored token, not \<^verbatim>\<open>undefined\<close>, and the cache still has an entry for \<open>cred-1\<close>.
\<close>

theorem stale_entry_lookup_counterexample:
  "[''cred-1'' \<mapsto> \<lparr>token = ''old'', expiresAt = 2000\<rparr>] ''cred-1''
      = Some \<lparr>token = ''old'', expiresAt = 2000\<rparr>
   \<and> (2000 :: rat) \<le> js_add (js_div (of_int 2000000) 1000) 300
   \<and> fst (getCachedCopilotToken 2000000 ''cred-1''
        \<lparr>copilotToken = Some ''stored'', copilotTokenExpiresAt = Some 1893456000000\<rparr>
        [''cred-1'' \<mapsto> \<lparr>token = ''old'', expiresAt = 2000\<rparr>]) = Some ''stored''
   \<and> snd (getCachedCopilotToken 2000000 ''cred-1''
        \<lparr>copilotToken = Some ''stored'', copilotTokenExpiresAt = Some 1893456000000\<rparr>
        [''cred-1'' \<mapsto> \<lparr>token = ''old'', expiresAt = 2000\<rparr>]) ''cred-1''
      = Some \<lparr>token = ''stored'', expiresAt = 1893456000\<rparr>"
  by (simp add: getCachedCopilotToken_def TOKEN_REFRESH_BUFFER_SECONDS_def Let_def
        truthy_string_def truthy_number_def normalizeExpiresAt_1893456000000
        js_threshold_2000000)

text \<open>
  C7, as amended. \<open>getCopilotToken\<close> consults its sources in this order, with
  \<open>now + 300\<close> the value of the source's
  \<^verbatim>\<open>Date.now() / 1000 + TOKEN_REFRESH_BUFFER_SECONDS\<close>.
  (1) A fresh cache entry (\<open>expiresAt > now + 300\<close>) whose token is not empty is
  returned as it is: the state, and with it the log of exchange requests, is unchanged.
  (2) When the cache has no fresh entry for the key and the credential snapshot holds a
  non-empty stored token with a non-zero expiry whose normalized value exceeds
  \<open>now + 300\<close>, the stored token is written into the cache under the key, with the
  normalized expiry, and returned; no exchange request is made.
  (3) In every other case, which includes a fresh cache entry whose token is the empty
  string, exactly one request goes to the exchange endpoint, with the GitHub access
  token in the \<open>Authorization\<close> header; when it answers ok with a body \<open>d\<close>, the token
  of \<open>d\<close> is cached under the key with the normalized expiry and returned.
\<close>

theorem getCopilotToken_source_order:
  "(copilotTokenCache st k = Some c \<and> expiresAt c > js_add (js_div (of_int nowMs) 1000) 300 \<and> token c \<noteq> []
      \<longrightarrow> getCopilotToken fetch nowMs k gat cd st = (Inr (token c), st))
   \<and> (\<not> (\<exists>c'. copilotTokenCache st k = Some c' \<and> expiresAt c' > js_add (js_div (of_int nowMs) 1000) 300)
        \<and> copilotToken cd = Some t \<and> t \<noteq> [] \<and> copilotTokenExpiresAt cd = Some e \<and> e \<noteq> 0
        \<and> normalizeExpiresAt e > js_add (js_div (of_int nowMs) 1000) 300
      \<longrightarrow> getCopilotToken fetch nowMs k gat cd st
            = (Inr t, st\<lparr>copilotTokenCache :=
                 (copilotTokenCache st)(k \<mapsto> \<lparr>token = t, expiresAt = normalizeExpiresAt e\<rparr>)\<rparr>))
   \<and> (\<not> (\<exists>c'. copilotTokenCache st k = Some c' \<and> expiresAt c' > js_add (js_div (of_int nowMs) 1000) 300
               \<and> token c' \<noteq> [])
        \<and> \<not> (\<not> (\<exists>c'. copilotTokenCache st k = Some c' \<and> expiresAt c' > js_add (js_div (of_int nowMs) 1000) 300)
              \<and> (\<exists>t' e'. copilotToken cd = Some t' \<and> t' \<noteq> [] \<and> copilotTokenExpiresAt cd = Some e'
                    \<and> e' \<noteq> 0 \<and> normalizeExpiresAt e' > js_add (js_div (of_int nowMs) 1000) 300))
      \<longrightarrow> fetchLog (snd (getCopilotToken fetch nowMs k gat cd st))
            = fetchLog st @ [(COPILOT_TOKEN_URL, (''Authorization'', ''token '' @ gat) # COPILOT_HEADERS)]
          \<and> (fetch COPILOT_TOKEN_URL ((''Authorization'', ''token '' @ gat) # COPILOT_HEADERS) = Inr resp
                 \<and> ok resp \<and> bodyJson resp = Inr d
               \<longrightarrow> getCopilotToken fetch nowMs k gat cd st
                   = (Inr (payload_token d),
                      \<lparr>copilotTokenCache = (copilotTokenCache st)(k \<mapsto>
                            \<lparr>token = payload_token d,
                             expiresAt = normalizeExpiresAt (expires_at d)\<rparr>),
                       fetchLog = fetchLog st @ [(COPILOT_TOKEN_URL,
                            (''Authorization'', ''token '' @ gat) # COPILOT_HEADERS)]\<rparr>)))"
  by (auto simp: getCopilotToken_def fetchCopilotToken_def getCachedCopilotToken_def
        TOKEN_REFRESH_BUFFER_SECONDS_def Let_def
        truthy_string_def truthy_number_def split: option.splits if_splits sum.splits prod.splits)

theorem getCopilotToken_source_order_witness:
  "getCopilotToken (example_fetch ''exchanged'') 0 ''cred-1'' ''gho_abc'' no_stored_token
      \<lparr>copilotTokenCache = [''cred-1'' \<mapsto> \<lparr>token = ''cached'', expiresAt = 1893456000\<rparr>],
       fetchLog = []\<rparr>
    = (Inr ''cached'',
       \<lparr>copilotTokenCache = [''cred-1'' \<mapsto> \<lparr>token = ''cached'', expiresAt = 1893456000\<rparr>],
        fetchLog = []\<rparr>)
   \<and> getCopilotToken (example_fetch ''exchanged'') 0 ''cred-1'' ''gho_abc''
        \<lparr>copilotToken = Some ''stored'', copilotTokenExpiresAt = Some 1893456000000\<rparr>
        \<lparr>copilotTokenCache = Map.empty, fetchLog = []\<rparr>
    = (Inr ''stored'',
       \<lparr>copilotTokenCache = [''cred-1'' \<mapsto> \<lparr>token = ''stored'', expiresAt = 1893456000\<rparr>],
        fetchLog = []\<rparr>)
   \<and> getCopilotToken (example_fetch ''exchanged'') 0 ''cred-1'' ''gho_abc'' no_stored_token
        \<lparr>copilotTokenCache = Map.empty, fetchLog = []\<rparr>
    = (Inr ''exchanged'',
       \<lparr>copilotTokenCache = [''cred-1'' \<mapsto> \<lparr>token = ''exchanged'', expiresAt = 1893456000\<rparr>],
        fetchLog = [(COPILOT_TOKEN_URL, (''Authorization'', ''token gho_abc'') # COPILOT_HEADERS)]\<rparr>)"
  using getCopilotToken_source_order
          [where st = "\<lparr>copilotTokenCache = [''cred-1'' \<mapsto> \<lparr>token = ''cached'', expiresAt = 1893456000\<rparr>],
                         fetchLog = []\<rparr>"
             and k = "''cred-1''" and c = "\<lparr>token = ''cached'', expiresAt = 1893456000\<rparr>"
             and nowMs = 0 and fetch = "example_fetch ''exchanged''" and gat = "''gho_abc''" and cd = no_stored_token
             and t = "[]" and e = 0
             and resp = "\<lparr>ok = True, status = 200, statusText = ''OK'', bodyText = [],
                   bodyJson = Inr \<lparr>payload_token = ''exchanged'', expires_at = 1893456000\<rparr>\<rparr>"
             and d = "\<lparr>payload_token = ''exchanged'', expires_at = 1893456000\<rparr>"]
        getCopilotToken_source_order
          [where st = "\<lparr>copilotTokenCache = Map.empty, fetchLog = []\<rparr>"
             and k = "''cred-1''" and c = "\<lparr>token = ''cached'', expiresAt = 1893456000\<rparr>"
             and nowMs = 0 and fetch = "example_fetch ''exchanged''" and gat = "''gho_abc''"
             and cd = "\<lparr>copilotToken = Some ''stored'', copilotTokenExpiresAt = Some 1893456000000\<rparr>"
             and t = "''stored''" and e = 1893456000000
             and resp = "\<lparr>ok = True, status = 200, statusText = ''OK'', bodyText = [],
                   bodyJson = Inr \<lparr>payload_token = ''exchanged'', expires_at = 1893456000\<rparr>\<rparr>"
             and d = "\<lparr>payload_token = ''exchanged'', expires_at = 1893456000\<rparr>"]
        getCopilotToken_source_order
          [where st = "\<lparr>copilotTokenCache = Map.empty, fetchLog = []\<rparr>"
             and k = "''cred-1''" and c = "\<lparr>token = ''cached'', expiresAt = 1893456000\<rparr>"
             and nowMs = 0 and fetch = "example_fetch ''exchanged''" and gat = "''gho_abc''" and cd = no_stored_token
             and t = "[]" and e = 0
             and resp = "\<lparr>ok = True, status = 200, statusText = ''OK'', bodyText = [],
                   bodyJson = Inr \<lparr>payload_token = ''exchanged'', expires_at = 1893456000\<rparr>\<rparr>"
             and d = "\<lparr>payload_token = ''exchanged'', expires_at = 1893456000\<rparr>"]
  by (simp add: no_stored_token_def example_fetch_def normalizeExpiresAt_def
        js_div_1893456000000 js_threshold_0)

text \<open>
  The claim as first stated fails at (1): a fresh cache entry whose token is the empty
  string is not returned; \<^verbatim>\<open>if (cached) return cached\<close> takes the empty string for no
  token, the exchange endpoint is called and its token replaces the entry.
\<close>

theorem getCopilotToken_source_order_counterexample:
  "[''cred-1'' \<mapsto> \<lparr>token = [], expiresAt = 1893456000\<rparr>] ''cred-1''
      = Some \<lparr>token = [], expiresAt = 1893456000\<rparr>
   \<and> (1893456000 :: rat) > js_add (js_div (of_int 0) 1000) 300
   \<and> getCopilotToken (example_fetch ''exchanged'') 0 ''cred-1'' ''gho_abc'' no_stored_token
        \<lparr>copilotTokenCache = [''cred-1'' \<mapsto> \<lparr>token = [], expiresAt = 1893456000\<rparr>],
         fetchLog = []\<rparr>
      = (Inr ''exchanged'',
         \<lparr>copilotTokenCache = [''cred-1'' \<mapsto> \<lparr>token = ''exchanged'', expiresAt = 1893456000\<rparr>],
          fetchLog = [(COPILOT_TOKEN_URL, (''Authorization'', ''token gho_abc'') # COPILOT_HEADERS)]\<rparr>)"
  by (simp add: getCopilotToken_def fetchCopilotToken_def getCachedCopilotToken_def
        TOKEN_REFRESH_BUFFER_SECONDS_def Let_def example_fetch_def no_stored_token_def
        truthy_string_def truthy_number_def normalizeExpiresAt_def js_threshold_0)

subsection \<open>Device flow configuration\<close>

text \<open>
  C6. \<open>resolveDeviceFlowConfig\<close> resolves the client id and the scope with the
  precedence credential override, environment variable, built-in default. A value
  counts when it is truthy (for a string: not empty). The credential override is
  \<open>deviceFlowClientId\<close>, else \<open>clientId\<close> (for the scope \<open>deviceFlowScope\<close>, else
  \<open>scope\<close>); without one, a non-empty \<open>GITHUB_DEVICE_FLOW_CLIENT_ID\<close>
  (\<open>GITHUB_DEVICE_FLOW_SCOPE\<close>) of the environment is taken; without that, the default.
  In particular a credential with neither property and an environment without the
  variable resolve to the client id \<open>Iv1.b507a08c87ecfe98\<close> and the scope
  \<open>read:user workflow repo\<close>.
\<close>

theorem resolveDeviceFlowConfig_precedence:
  "(truthy (get_prop cd ''deviceFlowClientId'')
      \<longrightarrow> clientId (resolveDeviceFlowConfig env cd) = get_prop cd ''deviceFlowClientId'')
   \<and> (\<not> truthy (get_prop cd ''deviceFlowClientId'') \<and> truthy (get_prop cd ''clientId'')
      \<longrightarrow> clientId (resolveDeviceFlowConfig env cd) = get_prop cd ''clientId'')
   \<and> (\<not> truthy (get_prop cd ''deviceFlowClientId'') \<and> \<not> truthy (get_prop cd ''clientId'')
        \<and> env ''GITHUB_DEVICE_FLOW_CLIENT_ID'' = Some v \<and> v \<noteq> []
      \<longrightarrow> clientId (resolveDeviceFlowConfig env cd) = JStr v)
   \<and> (\<not> truthy (get_prop cd ''deviceFlowClientId'') \<and> \<not> truthy (get_prop cd ''clientId'')
        \<and> (env ''GITHUB_DEVICE_FLOW_CLIENT_ID'' = None \<or> env ''GITHUB_DEVICE_FLOW_CLIENT_ID'' = Some [])
      \<longrightarrow> clientId (resolveDeviceFlowConfig env cd) = JStr ''Iv1.b507a08c87ecfe98'')
   \<and> (truthy (get_prop cd ''deviceFlowScope'')
      \<longrightarrow> scope (resolveDeviceFlowConfig env cd) = get_prop cd ''deviceFlowScope'')
   \<and> (\<not> truthy (get_prop cd ''deviceFlowScope'') \<and> truthy (get_prop cd ''scope'')
      \<longrightarrow> scope (resolveDeviceFlowConfig env cd) = get_prop cd ''scope'')
   \<and> (\<not> truthy (get_prop cd ''deviceFlowScope'') \<and> \<not> truthy (get_prop cd ''scope'')
        \<and> env ''GITHUB_DEVICE_FLOW_SCOPE'' = Some w \<and> w \<noteq> []
      \<longrightarrow> scope (resolveDeviceFlowConfig env cd) = JStr w)
   \<and> (\<not> truthy (get_prop cd ''deviceFlowScope'') \<and> \<not> truthy (get_prop cd ''scope'')
        \<and> (env ''GITHUB_DEVICE_FLOW_SCOPE'' = None \<or> env ''GITHUB_DEVICE_FLOW_SCOPE'' = Some [])
      \<longrightarrow> scope (resolveDeviceFlowConfig env cd) = JStr ''read:user workflow repo'')
   \<and> (cd ''deviceFlowClientId'' = None \<and> cd ''clientId'' = None
        \<and> env ''GITHUB_DEVICE_FLOW_CLIENT_ID'' = None
      \<longrightarrow> clientId (resolveDeviceFlowConfig env cd) = JStr ''Iv1.b507a08c87ecfe98'')
   \<and> (cd ''deviceFlowScope'' = None \<and> cd ''scope'' = None
        \<and> env ''GITHUB_DEVICE_FLOW_SCOPE'' = None
      \<longrightarrow> scope (resolveDeviceFlowConfig env cd) = JStr ''read:user workflow repo'')"
  by (auto simp: resolveDeviceFlowConfig_def js_or_def get_prop_def env_var_def
        DEFAULT_GITHUB_DEVICE_FLOW_CLIENT_ID_def DEFAULT_GITHUB_DEVICE_FLOW_SCOPE_def)

theorem resolveDeviceFlowConfig_precedence_witness:
  "clientId (resolveDeviceFlowConfig Map.empty Map.empty) = JStr ''Iv1.b507a08c87ecfe98''
   \<and> scope (resolveDeviceFlowConfig Map.empty Map.empty) = JStr ''read:user workflow repo''
   \<and> clientId (resolveDeviceFlowConfig [''GITHUB_DEVICE_FLOW_CLIENT_ID'' \<mapsto> ''env-id'']
        [''clientId'' \<mapsto> JStr ''cred-id'']) = JStr ''cred-id''
   \<and> clientId (resolveDeviceFlowConfig [''GITHUB_DEVICE_FLOW_CLIENT_ID'' \<mapsto> ''env-id'']
        [''clientId'' \<mapsto> JStr []]) = JStr ''env-id''"
  using resolveDeviceFlowConfig_precedence[of Map.empty Map.empty "[]" "[]"]
   resolveDeviceFlowConfig_precedence[of "[''clientId'' \<mapsto> JStr ''cred-id'']" "[''GITHUB_DEVICE_FLOW_CLIENT_ID'' \<mapsto> ''env-id'']" "''env-id''" "[]"]
   resolveDeviceFlowConfig_precedence[of "[''clientId'' \<mapsto> JStr []]" "[''GITHUB_DEVICE_FLOW_CLIENT_ID'' \<mapsto> ''env-id'']" "''env-id''" "[]"]
  by (simp add: get_prop_def)

text \<open>
  C10. For every credential bag and every environment the resolved client id is truthy,
  so never the empty string: the default is the last operand of the \<^verbatim>\<open>||\<close> chain.
  Hence neither handler ever answers 400 \<open>Missing GitHub device flow client ID\<close>.
\<close>

theorem missing_client_id_unreachable:
  "truthy (clientId (resolveDeviceFlowConfig env cd))
   \<and> clientId (resolveDeviceFlowConfig env cd) \<noteq> JStr []
   \<and> fst (startDeviceFlow x credentialId st)
        \<noteq> Json 400 [''success'' \<mapsto> JBool False,
                    ''message'' \<mapsto> JStr ''Missing GitHub device flow client ID'']
   \<and> fst (pollDeviceFlow x credentialId body st)
        \<noteq> Json 400 [''success'' \<mapsto> JBool False,
                    ''message'' \<mapsto> JStr ''Missing GitHub device flow client ID'']"
proof -
  have t: "truthy (clientId (resolveDeviceFlowConfig env cd))" for env cd
    by (rule resolveDeviceFlowConfig_clientId_truthy)
  have ne: "clientId (resolveDeviceFlowConfig env cd) \<noteq> JStr []"
    using t[of env cd] by auto
  have s: "fst (startDeviceFlow x credentialId st)
        \<noteq> Json 400 [''success'' \<mapsto> JBool False,
                    ''message'' \<mapsto> JStr ''Missing GitHub device flow client ID'']"
    by (simp add: startDeviceFlow_def Let_def t body_differs_message body_differs_status split: option.split sum.split)
  have p: "fst (pollDeviceFlow x credentialId body st)
        \<noteq> Json 400 [''success'' \<mapsto> JBool False,
                    ''message'' \<mapsto> JStr ''Missing GitHub device flow client ID'']"
    by (simp add: pollDeviceFlow_def Let_def t body_differs_message body_differs_status split: option.split sum.split)
  from t ne s p show ?thesis by blast
qed

subsection \<open>Polling the device flow\<close>

text \<open>
  C8. When the request body carries no device code (the body is missing, or both
  \<open>deviceCode\<close> and \<open>device_code\<close> are missing, empty or otherwise falsy),
  \<open>pollDeviceFlow\<close> answers 400 \<open>Missing deviceCode in request body\<close> and the state is
  returned as it was: no credential lookup, no decryption and no upstream request are
  recorded.
\<close>

theorem pollDeviceFlow_missing_device_code:
  "\<not> truthy (body_prop body ''deviceCode'') \<and> \<not> truthy (body_prop body ''device_code'')
    \<longrightarrow> pollDeviceFlow x credentialId body st
        = (Json 400 [''success'' \<mapsto> JBool False,
                     ''message'' \<mapsto> JStr ''Missing deviceCode in request body''], st)"
  by (simp add: pollDeviceFlow_def js_or_def)

theorem pollDeviceFlow_missing_device_code_witness:
  "\<not> truthy (body_prop (Some [''deviceCode'' \<mapsto> JStr []]) ''deviceCode'')
   \<and> \<not> truthy (body_prop (Some [''deviceCode'' \<mapsto> JStr []]) ''device_code'')
   \<and> pollDeviceFlow (example_externals (Inl ThrownOther)) ''cred-1''
        (Some [''deviceCode'' \<mapsto> JStr []]) example_state
      = (Json 400 [''success'' \<mapsto> JBool False,
                   ''message'' \<mapsto> JStr ''Missing deviceCode in request body''], example_state)
   \<and> effects (snd (pollDeviceFlow (example_externals (Inl ThrownOther)) ''cred-1'' None
                     example_state)) = []"
  using pollDeviceFlow_missing_device_code[of "Some [''deviceCode'' \<mapsto> JStr []]" "example_externals (Inl ThrownOther)" "''cred-1''" example_state]
    pollDeviceFlow_missing_device_code[of None "example_externals (Inl ThrownOther)" "''cred-1''" example_state]
  by (simp add: body_prop_def get_prop_def example_state_def)

text \<open>
  C3, as amended. Let the poll reach the token endpoint (device code present,
  credential found and decrypted) and let the endpoint answer with a body that has no
  \<open>access_token\<close>. If the body's \<open>error\<close> is \<open>authorization_pending\<close> or \<open>slow_down\<close>
  the handler answers 200 with \<open>success: false\<close>, that error as \<open>status\<close> and the
  body's \<open>error_description\<close>. Otherwise it answers 400 with \<open>success: false\<close>, with
  \<open>status\<close> the body's \<open>error\<close> when that is truthy and \<open>unknown_error\<close> when it is
  missing or empty, and with \<open>message\<close> the body's \<open>error_description\<close> when that is
  truthy and \<open>Device flow failed\<close> when it is missing or empty. In both cases the
  handler responds (nothing is passed to \<^verbatim>\<open>next\<close>) and the credential store is
  unchanged.
\<close>

theorem pollDeviceFlow_without_access_token:
  assumes "truthy (js_or (body_prop body ''deviceCode'') (body_prop body ''device_code''))"
    and "credentials st credentialId = Some credential"
    and "decryptCredentialData x (encryptedData credential) = Inr decryptedData"
    and "axios_post x ACCESS_TOKEN_URL
           [''client_id'' \<mapsto> clientId (resolveDeviceFlowConfig (process_env x) decryptedData),
            ''device_code'' \<mapsto> js_or (body_prop body ''deviceCode'') (body_prop body ''device_code''),
            ''grant_type'' \<mapsto> JStr ''urn:ietf:params:oauth:grant-type:device_code'']
           JSON_HEADERS = Inr tokenData"
    and "tokenData ''access_token'' = None"
  shows "(if get_prop tokenData ''error'' = JStr ''authorization_pending''
             \<or> get_prop tokenData ''error'' = JStr ''slow_down''
          then fst (pollDeviceFlow x credentialId body st)
                = Json 200 [''success'' \<mapsto> JBool False,
                            ''status'' \<mapsto> get_prop tokenData ''error'',
                            ''error_description'' \<mapsto> get_prop tokenData ''error_description'']
          else fst (pollDeviceFlow x credentialId body st)
                = Json 400 [''success'' \<mapsto> JBool False,
                            ''status'' \<mapsto>
                               (if truthy (get_prop tokenData ''error'')
                                then get_prop tokenData ''error'' else JStr ''unknown_error''),
                            ''message'' \<mapsto>
                               (if truthy (get_prop tokenData ''error_description'')
                                then get_prop tokenData ''error_description''
                                else JStr ''Device flow failed'')])
         \<and> credentials (snd (pollDeviceFlow x credentialId body st)) = credentials st"
proof -
  have "\<not> truthy (get_prop tokenData ''access_token'')"
    using assms(5) by (simp add: get_prop_def)
  then show ?thesis
    by (simp add: poll_reaches_upstream[OF assms(1-4)] Let_def js_or_def record_effect_def)
qed

theorem pollDeviceFlow_without_access_token_witness:
  "fst (pollDeviceFlow
          (example_externals (Inr [''error'' \<mapsto> JStr ''slow_down'',
                                   ''error_description'' \<mapsto> JStr ''Too many requests'']))
          ''cred-1'' (Some [''deviceCode'' \<mapsto> JStr ''dc-1'']) example_state)
     = Json 200 [''success'' \<mapsto> JBool False, ''status'' \<mapsto> JStr ''slow_down'',
                 ''error_description'' \<mapsto> JStr ''Too many requests'']
   \<and> fst (pollDeviceFlow
          (example_externals (Inr [''error'' \<mapsto> JStr ''expired_token'',
                                   ''error_description'' \<mapsto> JStr ''The device code has expired'']))
          ''cred-1'' (Some [''deviceCode'' \<mapsto> JStr ''dc-1'']) example_state)
     = Json 400 [''success'' \<mapsto> JBool False, ''status'' \<mapsto> JStr ''expired_token'',
                 ''message'' \<mapsto> JStr ''The device code has expired'']"
  using pollDeviceFlow_without_access_token[where x = "example_externals (Inr [''error'' \<mapsto> JStr ''slow_down'',
                                   ''error_description'' \<mapsto> JStr ''Too many requests''])"
      and credentialId = "''cred-1''" and body = "Some [''deviceCode'' \<mapsto> JStr ''dc-1'']"
      and st = example_state and credential = "\<lparr>encryptedData = ''blob-1'', updatedDate = 0\<rparr>"
      and decryptedData = "[''note'' \<mapsto> JStr ''keep'']"
      and tokenData = "[''error'' \<mapsto> JStr ''slow_down'',
                                   ''error_description'' \<mapsto> JStr ''Too many requests'']"]
    pollDeviceFlow_without_access_token[where x = "example_externals (Inr [''error'' \<mapsto> JStr ''expired_token'',
                                   ''error_description'' \<mapsto> JStr ''The device code has expired''])"
      and credentialId = "''cred-1''" and body = "Some [''deviceCode'' \<mapsto> JStr ''dc-1'']"
      and st = example_state and credential = "\<lparr>encryptedData = ''blob-1'', updatedDate = 0\<rparr>"
      and decryptedData = "[''note'' \<mapsto> JStr ''keep'']"
      and tokenData = "[''error'' \<mapsto> JStr ''expired_token'',
                                   ''error_description'' \<mapsto> JStr ''The device code has expired'']"]
  by (simp add: example_externals_def example_state_def js_or_def body_prop_def get_prop_def)

text \<open>
  The claim as first stated fails on the terminal branch: for the body
  \<open>{error: "access_denied"}\<close>, which has no \<open>error_description\<close>, the message of the
  400 response is \<open>Device flow failed\<close>, not an upstream description.
\<close>

theorem pollDeviceFlow_without_access_token_counterexample:
  "[''error'' \<mapsto> JStr ''access_denied''] ''access_token'' = None
   \<and> get_prop [''error'' \<mapsto> JStr ''access_denied''] ''error_description'' = JUndefined
   \<and> fst (pollDeviceFlow (example_externals (Inr [''error'' \<mapsto> JStr ''access_denied'']))
            ''cred-1'' (Some [''deviceCode'' \<mapsto> JStr ''dc-1'']) example_state)
      = Json 400 [''success'' \<mapsto> JBool False, ''status'' \<mapsto> JStr ''access_denied'',
                  ''message'' \<mapsto> JStr ''Device flow failed'']"
  by (simp add: pollDeviceFlow_def example_externals_def example_state_def Let_def js_or_def
        body_prop_def get_prop_def resolveDeviceFlowConfig_def env_var_def
        DEFAULT_GITHUB_DEVICE_FLOW_CLIENT_ID_def)

text \<open>
  C4. Let the poll reach the token endpoint and let the endpoint answer with a body
  whose \<open>access_token\<close> is a non-empty string, and let the encryption helper accept the
  updated bag. Then the handler answers \<open>{success: true, status: "authorized",
  credentialId}\<close>, and the bag it encrypts and stores under the credential holds that
  token as \<open>githubAccessToken\<close>, the body's \<open>token_type\<close> and \<open>scope\<close> as
  \<open>githubTokenType\<close> and \<open>githubTokenScope\<close>, and the clock's ISO string as
  \<open>githubTokenReceivedAt\<close>; the write goes through \<open>encryptCredentialData\<close> and the
  repository's \<open>update\<close>, in that order, after the upstream request.
\<close>

theorem pollDeviceFlow_persists_token:
  assumes "truthy (js_or (body_prop body ''deviceCode'') (body_prop body ''device_code''))"
    and "credentials st credentialId = Some credential"
    and "decryptCredentialData x (encryptedData credential) = Inr decryptedData"
    and "axios_post x ACCESS_TOKEN_URL
           [''client_id'' \<mapsto> clientId (resolveDeviceFlowConfig (process_env x) decryptedData),
            ''device_code'' \<mapsto> js_or (body_prop body ''deviceCode'') (body_prop body ''device_code''),
            ''grant_type'' \<mapsto> JStr ''urn:ietf:params:oauth:grant-type:device_code'']
           JSON_HEADERS = Inr tokenData"
    and "tokenData ''access_token'' = Some (JStr accessToken)" and "accessToken \<noteq> []"
    and "encryptCredentialData x
           (decryptedData(''githubAccessToken'' \<mapsto> JStr accessToken,
              ''githubTokenType'' \<mapsto> get_prop tokenData ''token_type'',
              ''githubTokenScope'' \<mapsto> get_prop tokenData ''scope'',
              ''githubTokenReceivedAt'' \<mapsto> JStr (newDateISOString x))) = Inr encrypted"
  shows "fst (pollDeviceFlow x credentialId body st)
           = Json 200 [''success'' \<mapsto> JBool True, ''status'' \<mapsto> JStr ''authorized'',
                       ''credentialId'' \<mapsto> JStr credentialId]
         \<and> (\<exists>written.
               written ''githubAccessToken'' = Some (JStr accessToken)
             \<and> written ''githubTokenType'' = Some (get_prop tokenData ''token_type'')
             \<and> written ''githubTokenScope'' = Some (get_prop tokenData ''scope'')
             \<and> written ''githubTokenReceivedAt'' = Some (JStr (newDateISOString x))
             \<and> encryptCredentialData x written = Inr encrypted
             \<and> credentials (snd (pollDeviceFlow x credentialId body st)) credentialId
                 = Some (credential\<lparr>encryptedData := encrypted, updatedDate := newDate x\<rparr>)
             \<and> effects (snd (pollDeviceFlow x credentialId body st))
                 = effects st @
                   [FindOneBy credentialId,
                    DecryptCredentialData (encryptedData credential),
                    AxiosPost ACCESS_TOKEN_URL
                      [''client_id'' \<mapsto> clientId (resolveDeviceFlowConfig (process_env x) decryptedData),
                       ''device_code'' \<mapsto> js_or (body_prop body ''deviceCode'') (body_prop body ''device_code''),
                       ''grant_type'' \<mapsto> JStr ''urn:ietf:params:oauth:grant-type:device_code'']
                      JSON_HEADERS,
                    EncryptCredentialData written,
                    RepositoryUpdate credentialId])"
proof -
  let ?w = "decryptedData(''githubAccessToken'' \<mapsto> JStr accessToken,
              ''githubTokenType'' \<mapsto> get_prop tokenData ''token_type'',
              ''githubTokenScope'' \<mapsto> get_prop tokenData ''scope'',
              ''githubTokenReceivedAt'' \<mapsto> JStr (newDateISOString x))"
  have a: "get_prop tokenData ''access_token'' = JStr accessToken"
    using assms(5) by (simp add: get_prop_def)
  have r: "pollDeviceFlow x credentialId body st =
     (Json 200 [''success'' \<mapsto> JBool True, ''status'' \<mapsto> JStr ''authorized'',
                ''credentialId'' \<mapsto> JStr credentialId],
      \<lparr>credentials = (credentials st)(credentialId \<mapsto>
           credential\<lparr>encryptedData := encrypted, updatedDate := newDate x\<rparr>),
       effects = effects st @
                   [FindOneBy credentialId,
                    DecryptCredentialData (encryptedData credential),
                    AxiosPost ACCESS_TOKEN_URL
                      [''client_id'' \<mapsto> clientId (resolveDeviceFlowConfig (process_env x) decryptedData),
                       ''device_code'' \<mapsto> js_or (body_prop body ''deviceCode'') (body_prop body ''device_code''),
                       ''grant_type'' \<mapsto> JStr ''urn:ietf:params:oauth:grant-type:device_code'']
                      JSON_HEADERS,
                    EncryptCredentialData ?w,
                    RepositoryUpdate credentialId]\<rparr>)"
    using assms(6,7)
    by (simp add: poll_reaches_upstream[OF assms(1-4)] a Let_def record_effect_def)
  show ?thesis
    unfolding r by (intro conjI exI[of _ ?w]) (simp_all add: assms(7))
qed

theorem pollDeviceFlow_persists_token_witness:
  "fst (pollDeviceFlow
        (example_externals (Inr [''access_token'' \<mapsto> JStr ''gho_abc'',
                                 ''token_type'' \<mapsto> JStr ''bearer'']))
        ''cred-1'' (Some [''deviceCode'' \<mapsto> JStr ''dc-1'']) example_state)
     = Json 200 [''success'' \<mapsto> JBool True, ''status'' \<mapsto> JStr ''authorized'',
                       ''credentialId'' \<mapsto> JStr ''cred-1'']
   \<and> credentials (snd (pollDeviceFlow
        (example_externals (Inr [''access_token'' \<mapsto> JStr ''gho_abc'',
                                 ''token_type'' \<mapsto> JStr ''bearer'']))
        ''cred-1'' (Some [''deviceCode'' \<mapsto> JStr ''dc-1'']) example_state)) ''cred-1''
     = Some \<lparr>encryptedData = ''sealed:gho_abc'', updatedDate = 1767225600000\<rparr>"
  using pollDeviceFlow_persists_token[where x = "example_externals (Inr [''access_token'' \<mapsto> JStr ''gho_abc'',
                                 ''token_type'' \<mapsto> JStr ''bearer''])"
      and credentialId = "''cred-1''" and body = "Some [''deviceCode'' \<mapsto> JStr ''dc-1'']"
      and st = example_state and credential = "\<lparr>encryptedData = ''blob-1'', updatedDate = 0\<rparr>"
      and decryptedData = "[''note'' \<mapsto> JStr ''keep'']"
      and tokenData = "[''access_token'' \<mapsto> JStr ''gho_abc'', ''token_type'' \<mapsto> JStr ''bearer'']"
      and accessToken = "''gho_abc''"
      and encrypted = "''sealed:gho_abc''"]
  by (auto simp: example_externals_def example_state_def js_or_def body_prop_def get_prop_def)

text \<open>
  C9. On a successful poll, the bag that is encrypted and written back agrees with the
  decrypted bag on every property other than \<open>githubAccessToken\<close>, \<open>githubTokenType\<close>,
  \<open>githubTokenScope\<close> and \<open>githubTokenReceivedAt\<close>, and its properties are those of the
  decrypted bag together with these four; the other credentials of the store are
  untouched.
\<close>

theorem pollDeviceFlow_frame:
  assumes "truthy (js_or (body_prop body ''deviceCode'') (body_prop body ''device_code''))"
    and "credentials st credentialId = Some credential"
    and "decryptCredentialData x (encryptedData credential) = Inr decryptedData"
    and "axios_post x ACCESS_TOKEN_URL
           [''client_id'' \<mapsto> clientId (resolveDeviceFlowConfig (process_env x) decryptedData),
            ''device_code'' \<mapsto> js_or (body_prop body ''deviceCode'') (body_prop body ''device_code''),
            ''grant_type'' \<mapsto> JStr ''urn:ietf:params:oauth:grant-type:device_code'']
           JSON_HEADERS = Inr tokenData"
    and "truthy (get_prop tokenData ''access_token'')"
    and "encryptCredentialData x
           (decryptedData(''githubAccessToken'' \<mapsto> get_prop tokenData ''access_token'',
              ''githubTokenType'' \<mapsto> get_prop tokenData ''token_type'',
              ''githubTokenScope'' \<mapsto> get_prop tokenData ''scope'',
              ''githubTokenReceivedAt'' \<mapsto> JStr (newDateISOString x))) = Inr encrypted"
  shows "\<exists>written before.
           effects (snd (pollDeviceFlow x credentialId body st))
             = before @ [EncryptCredentialData written, RepositoryUpdate credentialId]
         \<and> encryptCredentialData x written = Inr encrypted
         \<and> credentials (snd (pollDeviceFlow x credentialId body st)) credentialId
             = Some (credential\<lparr>encryptedData := encrypted, updatedDate := newDate x\<rparr>)
         \<and> (\<forall>k. k \<notin> {''githubAccessToken'', ''githubTokenType'', ''githubTokenScope'',
                       ''githubTokenReceivedAt''}
                \<longrightarrow> written k = decryptedData k)
         \<and> dom written = dom decryptedData \<union> {''githubAccessToken'', ''githubTokenType'',
                                ''githubTokenScope'', ''githubTokenReceivedAt''}
         \<and> (\<forall>other. other \<noteq> credentialId
                \<longrightarrow> credentials (snd (pollDeviceFlow x credentialId body st)) other
                    = credentials st other)"
proof -
  let ?w = "decryptedData(''githubAccessToken'' \<mapsto> get_prop tokenData ''access_token'',
              ''githubTokenType'' \<mapsto> get_prop tokenData ''token_type'',
              ''githubTokenScope'' \<mapsto> get_prop tokenData ''scope'',
              ''githubTokenReceivedAt'' \<mapsto> JStr (newDateISOString x))"
  let ?before = "effects st @
                   [FindOneBy credentialId,
                    DecryptCredentialData (encryptedData credential),
                    AxiosPost ACCESS_TOKEN_URL
                      [''client_id'' \<mapsto> clientId (resolveDeviceFlowConfig (process_env x) decryptedData),
                       ''device_code'' \<mapsto> js_or (body_prop body ''deviceCode'') (body_prop body ''device_code''),
                       ''grant_type'' \<mapsto> JStr ''urn:ietf:params:oauth:grant-type:device_code'']
                      JSON_HEADERS]"
  have frame: "\<forall>k. k \<notin> {''githubAccessToken'', ''githubTokenType'', ''githubTokenScope'',
                       ''githubTokenReceivedAt''} \<longrightarrow> ?w k = decryptedData k"
    by simp
  have d: "dom ?w = dom decryptedData \<union> {''githubAccessToken'', ''githubTokenType'',
                                ''githubTokenScope'', ''githubTokenReceivedAt''}"
    by auto
  show ?thesis
    unfolding pollDeviceFlow_authorized[OF assms]
    apply (rule exI[of _ ?w])
    apply (rule exI[of _ ?before])
    using frame d assms(6) by simp
qed

theorem pollDeviceFlow_frame_witness:
  "\<exists>written before.
     effects (snd (pollDeviceFlow
        (example_externals (Inr [''access_token'' \<mapsto> JStr ''gho_abc'',
                                 ''token_type'' \<mapsto> JStr ''bearer'']))
        ''cred-1'' (Some [''deviceCode'' \<mapsto> JStr ''dc-1'']) example_state))
       = before @ [EncryptCredentialData written, RepositoryUpdate ''cred-1'']
     \<and> written ''note'' = Some (JStr ''keep'')
     \<and> dom written = {''note'', ''githubAccessToken'', ''githubTokenType'',
                       ''githubTokenScope'', ''githubTokenReceivedAt''}"
proof -
  from pollDeviceFlow_frame[where x = "example_externals (Inr [''access_token'' \<mapsto> JStr ''gho_abc'',
                                 ''token_type'' \<mapsto> JStr ''bearer''])"
      and credentialId = "''cred-1''" and body = "Some [''deviceCode'' \<mapsto> JStr ''dc-1'']"
      and st = example_state and credential = "\<lparr>encryptedData = ''blob-1'', updatedDate = 0\<rparr>"
      and decryptedData = "[''note'' \<mapsto> JStr ''keep'']"
      and tokenData = "[''access_token'' \<mapsto> JStr ''gho_abc'', ''token_type'' \<mapsto> JStr ''bearer'']"
      and encrypted = "''sealed:gho_abc''"]
  obtain written before where
    e: "effects (snd (pollDeviceFlow
        (example_externals (Inr [''access_token'' \<mapsto> JStr ''gho_abc'',
                                 ''token_type'' \<mapsto> JStr ''bearer'']))
        ''cred-1'' (Some [''deviceCode'' \<mapsto> JStr ''dc-1'']) example_state))
       = before @ [EncryptCredentialData written, RepositoryUpdate ''cred-1'']"
    and f: "\<forall>k. k \<notin> {''githubAccessToken'', ''githubTokenType'', ''githubTokenScope'',
                       ''githubTokenReceivedAt''}
                \<longrightarrow> written k = [''note'' \<mapsto> JStr ''keep''] k"
    and d: "dom written = dom [''note'' \<mapsto> JStr ''keep''] \<union> {''githubAccessToken'', ''githubTokenType'',
                                ''githubTokenScope'', ''githubTokenReceivedAt''}"
    by (auto simp: example_externals_def example_state_def js_or_def body_prop_def get_prop_def)
  from f have "written ''note'' = Some (JStr ''keep'')" by simp
  with e d show ?thesis by auto
qed

subsection \<open>Expiry normalization\<close>



end
